theory Spec2Isabelle
  imports Complex_Main "HOL-Library.Multiset"
begin

section \<open>ResumeSense: the HTTP routes of \<^verbatim>\<open>backend/api/routes.py\<close>\<close>

text \<open>
  The routes file is a thin orchestration layer: it reads the request, calls the analysis
  collaborators, writes three kinds of rows through an SQLAlchemy session and builds a JSON
  answer. The embedding keeps that shape. A view function takes the collaborators (an
  \<open>env\<close>), the request and the state of the store, and returns the pair
  \<open>(jsonify(...), status)\<close> of the source together with the state of the store afterwards.
  Everything that can raise returns a sum whose left side is the exception, so the
  \<^verbatim>\<open>try ... except Exception\<close> of every view is a case distinction of the model.
  The line that an except branch prints to the console is not part of the model.
\<close>

subsection \<open>Python values\<close>

text \<open>
  A Python \<^verbatim>\<open>str\<close> is a sequence of code points, and \<^verbatim>\<open>len\<close> and slicing count code
  points. It is modelled as a list of code point numbers; \<open>ustr\<close> embeds the ASCII literals
  of the source.
\<close>

type_synonym str = "nat list"

definition ustr :: "string \<Rightarrow> str" where
  "ustr s = map of_char s"

text \<open>The bytes of an uploaded file.\<close>

type_synonym bytes = "char list"

text \<open>An exception, with the text that \<^verbatim>\<open>str(e)\<close> gives.\<close>

datatype exn = Exception str

fun str_of :: "exn \<Rightarrow> str" where
  "str_of (Exception m) = m"

text \<open>Truth value of an optional string: \<^verbatim>\<open>None\<close> and \<^verbatim>\<open>""\<close> are false.\<close>

definition truthy :: "str option \<Rightarrow> bool" where
  "truthy v = (case v of None \<Rightarrow> False | Some t \<Rightarrow> t \<noteq> [])"

text \<open>Structured payloads whose shape the routes never inspect.\<close>

datatype json =
    JNull
  | JBool bool
  | JNum real
  | JStr str
  | JArr "json list"
  | JObj "(str \<times> json) list"

text \<open>Sequencing of calls that may raise: the first exception ends the sequence.\<close>

definition and_then :: "exn + 'a \<Rightarrow> ('a \<Rightarrow> exn + 'b) \<Rightarrow> exn + 'b" where
  "and_then m f = (case m of Inl e \<Rightarrow> Inl e | Inr x \<Rightarrow> f x)"

subsection \<open>Responses\<close>

text \<open>
  A view returns \<^verbatim>\<open>jsonify(body), status\<close>. The body is either the payload of the view or
  the object \<^verbatim>\<open>{"error": message}\<close>.
\<close>

datatype 'a body = Jsonify 'a | JsonError str

type_synonym 'a response = "'a body \<times> nat"

datatype ('r, 'a) step = Raise exn | Return 'r | Next 'a

subsection \<open>The data model\<close>

text \<open>
  Modelled from the spec: the three entities of \<^verbatim>\<open>backend/db/database.py\<close>, which is not
  part of the sources at hand. The field lists are those of section 3 of the specification
  and of the attribute accesses in the routes. A primary key is \<open>None\<close> on an object that
  has not been flushed yet; the timestamps are set by the store.
\<close>

type_synonym timestamp = nat

record resume =
  r_id :: "int option"
  resume_text :: str
  r_created_at :: "timestamp option"
  r_updated_at :: "timestamp option"

record job =
  j_id :: "int option"
  job_description :: str
  j_created_at :: "timestamp option"

text \<open>
  Modelled from the spec: the results of the collaborators, as far as the routes read them:
  the match scorer returns a mapping with a numeric \<^verbatim>\<open>match_score\<close>, the compliance
  checker one with \<^verbatim>\<open>ats_score\<close>, the quality scorer one with \<^verbatim>\<open>quality_score\<close>.
\<close>

record match_result =
  mr_match_score :: real
  mr_rest :: json

record ats_result =
  ar_ats_score :: real
  ar_rest :: json

record quality_result =
  qr_quality_score :: real
  qr_rest :: json

record power_verbs =
  findings :: "json list"
  stats :: json

record analysis_result =
  a_id :: "int option"
  resume_id :: "int option"
  job_id :: "int option"
  match_score :: "real option"
  ats_score :: real
  quality_score :: real
  ats_flags :: ats_result
  power_verb_suggestions :: power_verbs
  match_details :: "match_result option"
  created_at :: "timestamp option"

definition Resume :: "str \<Rightarrow> resume" where
  "Resume text = \<lparr>r_id = None, resume_text = text, r_created_at = None, r_updated_at = None\<rparr>"

definition Job :: "str \<Rightarrow> job" where
  "Job text = \<lparr>j_id = None, job_description = text, j_created_at = None\<rparr>"

definition AnalysisResult ::
  "int option \<Rightarrow> int option \<Rightarrow> real option \<Rightarrow> real \<Rightarrow> real \<Rightarrow> ats_result \<Rightarrow> power_verbs \<Rightarrow>
   match_result option \<Rightarrow> analysis_result" where
  "AnalysisResult rid jid ms ats q flags verbs details =
     \<lparr>a_id = None, resume_id = rid, job_id = jid, match_score = ms, ats_score = ats,
      quality_score = q, ats_flags = flags, power_verb_suggestions = verbs,
      match_details = details, created_at = None\<rparr>"

subsection \<open>The store and its session\<close>

text \<open>
  Modelled from the spec: the storage gateway (\<^verbatim>\<open>get_db\<close> and the SQLAlchemy session).
  The state holds the three tables in insertion order, the objects attached to the session
  of the current request (a Python variable that refers to such an object is its index in
  that list), a clock for the timestamps, the log of the inserts and commits performed, and
  a script of the outcomes of the coming commits (\<open>Some e\<close>: that commit raises \<open>e\<close>), which
  stands for the failures of persistence that the specification speaks of.
\<close>

datatype orm = ResumeObj resume | JobObj job | AnalysisObj analysis_result

datatype table = Resumes | Jobs | AnalysisResults

datatype event = Insert table int | Commit

record db =
  resumes :: "resume list"
  jobs :: "job list"
  analyses :: "analysis_result list"
  objects :: "orm list"
  clock :: timestamp
  oplog :: "event list"
  faults :: "exn option list"

text \<open>Every request works on a session of its own over the same tables.\<close>

definition get_db :: "db \<Rightarrow> db" where
  "get_db d = d\<lparr>objects := []\<rparr>"

text \<open>A generated key is larger than every key of the table.\<close>

definition next_id :: "int option list \<Rightarrow> int" where
  "next_id ks = fold max (map (\<lambda>k. case k of None \<Rightarrow> 0 | Some i \<Rightarrow> i) ks) 0 + 1"

fun flush_obj :: "orm \<Rightarrow> db \<Rightarrow> orm \<times> db" where
  "flush_obj (ResumeObj r) d =
     (if r_id r = None then
        (let k = next_id (map r_id (resumes d));
             row = r\<lparr>r_id := Some k, r_created_at := Some (clock d),
                     r_updated_at := Some (clock d)\<rparr>
         in (ResumeObj row,
             d\<lparr>resumes := resumes d @ [row], oplog := oplog d @ [Insert Resumes k]\<rparr>))
      else (ResumeObj r, d))"
| "flush_obj (JobObj j) d =
     (if j_id j = None then
        (let k = next_id (map j_id (jobs d));
             row = j\<lparr>j_id := Some k, j_created_at := Some (clock d)\<rparr>
         in (JobObj row,
             d\<lparr>jobs := jobs d @ [row], oplog := oplog d @ [Insert Jobs k]\<rparr>))
      else (JobObj j, d))"
| "flush_obj (AnalysisObj a) d =
     (if a_id a = None then
        (let k = next_id (map a_id (analyses d));
             row = a\<lparr>a_id := Some k, created_at := Some (clock d)\<rparr>
         in (AnalysisObj row,
             d\<lparr>analyses := analyses d @ [row], oplog := oplog d @ [Insert AnalysisResults k]\<rparr>))
      else (AnalysisObj a, d))"

fun flush :: "orm list \<Rightarrow> db \<Rightarrow> orm list \<times> db" where
  "flush [] d = ([], d)"
| "flush (x # xs) d =
     (case flush_obj x d of (x', d') \<Rightarrow>
        (case flush xs d' of (xs', d'') \<Rightarrow> (x' # xs', d'')))"

text \<open>\<^verbatim>\<open>db.add(obj)\<close>: the object joins the session; the result is the reference to it.\<close>

definition db_add :: "db \<Rightarrow> orm \<Rightarrow> nat \<times> db" where
  "db_add d x = (length (objects d), d\<lparr>objects := objects d @ [x]\<rparr>)"

text \<open>The outcome that the script holds for the next commit.\<close>

definition commit_outcome :: "exn option list \<Rightarrow> exn option" where
  "commit_outcome fs = (case fs of [] \<Rightarrow> None | f # _ \<Rightarrow> f)"

text \<open>
  \<^verbatim>\<open>db.commit()\<close>: the pending objects are inserted in the order in which they were added,
  each with a generated key, and the transaction is committed; or the commit raises and
  inserts nothing.
\<close>

definition db_commit :: "db \<Rightarrow> (exn + unit) \<times> db" where
  "db_commit d =
     (case commit_outcome (faults d) of
        Some e \<Rightarrow> (Inl e, d\<lparr>faults := tl (faults d)\<rparr>)
      | None \<Rightarrow>
        (case flush (objects d) d of (os, d') \<Rightarrow>
           (Inr (), d'\<lparr>objects := os, clock := Suc (clock d'),
                       oplog := oplog d' @ [Commit], faults := tl (faults d)\<rparr>)))"

definition InvalidRequestError :: exn where
  "InvalidRequestError = Exception (ustr ''Instance is not persistent within this Session'')"

text \<open>\<^verbatim>\<open>db.refresh(obj)\<close>: the attributes of a persistent object are read again from its row.\<close>

definition db_refresh :: "db \<Rightarrow> nat \<Rightarrow> (exn + unit) \<times> db" where
  "db_refresh d h =
     (if h < length (objects d) then
        (case objects d ! h of
           ResumeObj r \<Rightarrow>
             (case find (\<lambda>x. r_id r \<noteq> None \<and> r_id x = r_id r) (resumes d) of
                None \<Rightarrow> (Inl InvalidRequestError, d)
              | Some row \<Rightarrow> (Inr (), d\<lparr>objects := (objects d)[h := ResumeObj row]\<rparr>))
         | JobObj j \<Rightarrow>
             (case find (\<lambda>x. j_id j \<noteq> None \<and> j_id x = j_id j) (jobs d) of
                None \<Rightarrow> (Inl InvalidRequestError, d)
              | Some row \<Rightarrow> (Inr (), d\<lparr>objects := (objects d)[h := JobObj row]\<rparr>))
         | AnalysisObj a \<Rightarrow>
             (case find (\<lambda>x. a_id a \<noteq> None \<and> a_id x = a_id a) (analyses d) of
                None \<Rightarrow> (Inl InvalidRequestError, d)
              | Some row \<Rightarrow> (Inr (), d\<lparr>objects := (objects d)[h := AnalysisObj row]\<rparr>)))
      else (Inl InvalidRequestError, d))"

text \<open>The attribute \<^verbatim>\<open>.id\<close> of the object behind a reference.\<close>

definition obj_id :: "db \<Rightarrow> nat \<Rightarrow> int option" where
  "obj_id d h =
     (if h < length (objects d) then
        (case objects d ! h of
           ResumeObj r \<Rightarrow> r_id r
         | JobObj j \<Rightarrow> j_id j
         | AnalysisObj a \<Rightarrow> a_id a)
      else None)"

subsection \<open>Requests and collaborators\<close>

text \<open>
  The part of a Flask request that the routes read: the uploaded files and the form fields
  by field name, and the query parameters. An uploaded file is true in a condition when its
  file name is not empty.
\<close>

record file_storage =
  filename :: str
  content :: bytes

record request =
  files :: "string \<rightharpoonup> file_storage"
  form :: "string \<rightharpoonup> str"
  args :: "string \<rightharpoonup> str"

text \<open>
  What the routes import and call but do not define: the allow-list of \<^verbatim>\<open>Config\<close>, the
  collaborators and the two built-ins \<^verbatim>\<open>str.lower\<close> and \<^verbatim>\<open>int\<close>. They are parameters of
  the model. A collaborator returns its value or raises.
\<close>

record env =
  ALLOWED_EXTENSIONS :: "str set"
  lower :: "str \<Rightarrow> str"
  to_int :: "str \<Rightarrow> int option"
  extract_text_from_bytes :: "bytes \<Rightarrow> exn + str option"
  compute_match_score :: "str \<Rightarrow> str \<Rightarrow> exn + match_result"
  check_compliance :: "str \<Rightarrow> exn + ats_result"
  find_weak_verbs :: "str \<Rightarrow> exn + json list"
  get_power_verb_stats :: "str \<Rightarrow> exn + json"
  score_resume :: "str \<Rightarrow> str \<Rightarrow> exn + quality_result"
  extract_insights :: "str \<Rightarrow> exn + json"

subsection \<open>\<^verbatim>\<open>allowed_file\<close>\<close>

definition dot :: nat where
  "dot = 46"

text \<open>\<^verbatim>\<open>filename.rsplit('.', 1)[1]\<close>, for a name that contains a dot: what follows the last dot.\<close>

definition rsplit_dot_1 :: "str \<Rightarrow> str" where
  "rsplit_dot_1 name = rev (takeWhile (\<lambda>c. c \<noteq> dot) (rev name))"

definition allowed_file :: "env \<Rightarrow> str \<Rightarrow> bool" where
  "allowed_file env name =
     (dot \<in> set name \<and> lower env (rsplit_dot_1 name) \<in> ALLOWED_EXTENSIONS env)"

subsection \<open>\<^verbatim>\<open>POST /analyze\<close>\<close>

text \<open>
  The dictionary \<^verbatim>\<open>results\<close>. The three identifiers are added after the rows are stored;
  \<open>None\<close> is a key that is absent or \<^verbatim>\<open>null\<close>.
\<close>

record results =
  res_match_score :: "real option"
  res_match_details :: "match_result option"
  res_ats_score :: real
  res_ats_report :: ats_result
  res_power_verbs :: power_verbs
  res_quality_score :: real
  res_quality_details :: quality_result
  res_resume_insights :: json
  res_analysis_id :: "int option"
  res_resume_id :: "int option"
  res_job_id :: "int option"

text \<open>
  Lines 43 to 56: where the text of the resume comes from. The variable \<^verbatim>\<open>resume_text\<close> of
  the source is \<open>text\<close> here, since \<open>resume_text\<close> is the column of the resume row.
\<close>

definition extract_resume_text :: "env \<Rightarrow> request \<Rightarrow> (results response, str) step" where
  "extract_resume_text env request =
     (case (case files request ''resume_file'' of
              None \<Rightarrow> Next None
            | Some file \<Rightarrow>
                if filename file \<noteq> [] \<and> allowed_file env (filename file) then
                  (case extract_text_from_bytes env (content file) of
                     Inl e \<Rightarrow> Raise e
                   | Inr text \<Rightarrow>
                       if \<not> truthy text
                       then Return (JsonError (ustr ''Could not read PDF text''), 400)
                       else Next text)
                else Next None) of
        Raise e \<Rightarrow> Raise e
      | Return r \<Rightarrow> Return r
      | Next text \<Rightarrow>
          (let text = (if \<not> truthy text then form request ''resume_text'' else text)
           in case text of
                None \<Rightarrow> Return (JsonError (ustr ''No resume provided''), 400)
              | Some t \<Rightarrow>
                  if t = [] then Return (JsonError (ustr ''No resume provided''), 400)
                  else Next t))"

text \<open>\<^verbatim>\<open>request.form.get("job_description", "")\<close>\<close>

definition get_jd_text :: "request \<Rightarrow> str" where
  "get_jd_text request = (case form request ''job_description'' of None \<Rightarrow> [] | Some v \<Rightarrow> v)"

text \<open>Lines 63 to 91: the collaborators, in the order of the source.\<close>

definition perform_analyses :: "env \<Rightarrow> str \<Rightarrow> str \<Rightarrow> exn + results" where
  "perform_analyses env text jd_text =
     and_then
       (if jd_text \<noteq> [] then
          and_then (compute_match_score env text jd_text)
            (\<lambda>match_result. Inr (Some (mr_match_score match_result), Some match_result))
        else Inr (None, None))
       (\<lambda>(ms, md).
     and_then (check_compliance env text) (\<lambda>ats_result.
     and_then (find_weak_verbs env text) (\<lambda>weak.
     and_then (get_power_verb_stats env text) (\<lambda>st.
     and_then (score_resume env text jd_text) (\<lambda>quality_result.
     and_then (extract_insights env text) (\<lambda>insights.
       Inr \<lparr>res_match_score = ms,
            res_match_details = md,
            res_ats_score = ar_ats_score ats_result,
            res_ats_report = ats_result,
            res_power_verbs = \<lparr>findings = take 10 weak, stats = st\<rparr>,
            res_quality_score = qr_quality_score quality_result,
            res_quality_details = quality_result,
            res_resume_insights = insights,
            res_analysis_id = None,
            res_resume_id = None,
            res_job_id = None\<rparr>))))))"

text \<open>Sequencing of session calls: an exception ends the sequence and keeps the state.\<close>

definition then_db ::
  "(exn + 'a) \<times> db \<Rightarrow> ('a \<Rightarrow> db \<Rightarrow> (exn + 'b) \<times> db) \<Rightarrow> (exn + 'b) \<times> db" where
  "then_db m f = (case m of (Inl e, d) \<Rightarrow> (Inl e, d) | (Inr x, d) \<Rightarrow> f x d)"

text \<open>Lines 102 to 108: the job row, only for a job description that is not empty.\<close>

definition insert_job :: "db \<Rightarrow> str \<Rightarrow> (exn + nat option) \<times> db" where
  "insert_job d jd_text =
     (if jd_text \<noteq> [] then
        (case db_add d (JobObj (Job jd_text)) of (new_job, d) \<Rightarrow>
           then_db (db_commit d) (\<lambda>_ d.
           then_db (db_refresh d new_job) (\<lambda>_ d.
             (Inr (Some new_job), d))))
      else (Inr None, d))"

text \<open>\<^verbatim>\<open>new_job.id if new_job else None\<close>\<close>

definition job_id_of :: "db \<Rightarrow> nat option \<Rightarrow> int option" where
  "job_id_of d new_job = (case new_job of None \<Rightarrow> None | Some j \<Rightarrow> obj_id d j)"

text \<open>
  Lines 96 to 128: the three inserts. The result is the three identifiers that the source
  puts into \<^verbatim>\<open>results\<close>: \<^verbatim>\<open>analysis_id\<close>, \<^verbatim>\<open>resume_id\<close> and \<^verbatim>\<open>job_id\<close>.
\<close>

definition store_in_db ::
  "db \<Rightarrow> str \<Rightarrow> str \<Rightarrow> results \<Rightarrow> (exn + int option \<times> int option \<times> int option) \<times> db" where
  "store_in_db d text jd_text results =
     (case db_add d (ResumeObj (Resume text)) of (new_resume, d) \<Rightarrow>
        then_db (db_commit d) (\<lambda>_ d.
        then_db (db_refresh d new_resume) (\<lambda>_ d.
        then_db (insert_job d jd_text) (\<lambda>new_job d.
          (case db_add d (AnalysisObj (AnalysisResult
                  (obj_id d new_resume)
                  (job_id_of d new_job)
                  (res_match_score results)
                  (res_ats_score results)
                  (res_quality_score results)
                  (res_ats_report results)
                  (res_power_verbs results)
                  (res_match_details results))) of (new_analysis, d) \<Rightarrow>
             then_db (db_commit d) (\<lambda>_ d.
             then_db (db_refresh d new_analysis) (\<lambda>_ d.
               (Inr (obj_id d new_analysis, obj_id d new_resume, job_id_of d new_job),
                d))))))))"

definition analyze_resume :: "env \<Rightarrow> request \<Rightarrow> db \<Rightarrow> results response \<times> db" where
  "analyze_resume env request d0 =
     (let d = get_db d0 in
      case extract_resume_text env request of
        Raise e \<Rightarrow> ((JsonError (str_of e), 500), d)
      | Return r \<Rightarrow> (r, d)
      | Next text \<Rightarrow>
          (let jd_text = get_jd_text request in
           case perform_analyses env text jd_text of
             Inl e \<Rightarrow> ((JsonError (str_of e), 500), d)
           | Inr results \<Rightarrow>
               (case store_in_db d text jd_text results of
                  (Inl e, d) \<Rightarrow> ((JsonError (str_of e), 500), d)
                | (Inr (aid, rid, jid), d) \<Rightarrow>
                    ((Jsonify (results\<lparr>res_analysis_id := aid,
                                       res_resume_id := rid,
                                       res_job_id := jid\<rparr>), 200), d))))"

subsection \<open>\<^verbatim>\<open>GET /history\<close>\<close>

text \<open>
  \<^verbatim>\<open>request.args.get("limit", 20, type=int)\<close>: the default when the parameter is missing or
  is not an integer.
\<close>

definition get_limit :: "env \<Rightarrow> request \<Rightarrow> int" where
  "get_limit env request =
     (case args request ''limit'' of
        None \<Rightarrow> 20
      | Some v \<Rightarrow> (case to_int env v of None \<Rightarrow> 20 | Some n \<Rightarrow> n))"

text \<open>
  Modelled from the spec: the query
  \<^verbatim>\<open>db.query(AnalysisResult).order_by(AnalysisResult.created_at.desc()).limit(limit).all()\<close>
  on the PostgreSQL store that the routes name. \<open>desc_before a b\<close> says that a row created
  at \<open>a\<close> may stand before one created at \<open>b\<close>: later first, and a missing timestamp
  before all others, as PostgreSQL sorts \<^verbatim>\<open>NULL\<close> in descending order. Rows with equal
  timestamps keep their insertion order. PostgreSQL rejects a negative limit and one that
  is not a 64-bit integer.
\<close>

definition desc_before :: "timestamp option \<Rightarrow> timestamp option \<Rightarrow> bool" where
  "desc_before a b =
     (case a of None \<Rightarrow> True | Some x \<Rightarrow> (case b of None \<Rightarrow> False | Some y \<Rightarrow> y \<le> x))"

fun insert_desc :: "analysis_result \<Rightarrow> analysis_result list \<Rightarrow> analysis_result list" where
  "insert_desc x [] = [x]"
| "insert_desc x (y # ys) =
     (if desc_before (created_at x) (created_at y) then x # y # ys
      else y # insert_desc x ys)"

fun order_by_created_at_desc :: "analysis_result list \<Rightarrow> analysis_result list" where
  "order_by_created_at_desc [] = []"
| "order_by_created_at_desc (x # xs) = insert_desc x (order_by_created_at_desc xs)"

definition query_history :: "db \<Rightarrow> int \<Rightarrow> exn + analysis_result list" where
  "query_history d limit =
     (if limit < 0 then Inl (Exception (ustr ''LIMIT must not be negative''))
      else if 2 ^ 63 \<le> limit then Inl (Exception (ustr ''bigint out of range''))
      else Inr (take (nat limit) (order_by_created_at_desc (analyses d))))"

text \<open>
  Modelled from the spec: the relationships \<^verbatim>\<open>item.resume\<close> and \<^verbatim>\<open>item.job\<close>, the rows
  that the foreign references \<^verbatim>\<open>resume_id\<close> and \<^verbatim>\<open>job_id\<close> point to, or \<^verbatim>\<open>None\<close>.
\<close>

definition item_resume :: "db \<Rightarrow> analysis_result \<Rightarrow> resume option" where
  "item_resume d item =
     (case resume_id item of
        None \<Rightarrow> None
      | Some k \<Rightarrow> find (\<lambda>r. r_id r = Some k) (resumes d))"

definition item_job :: "db \<Rightarrow> analysis_result \<Rightarrow> job option" where
  "item_job d item =
     (case job_id item of
        None \<Rightarrow> None
      | Some k \<Rightarrow> find (\<lambda>j. j_id j = Some k) (jobs d))"

text \<open>Reading \<^verbatim>\<open>.resume_text\<close> from what may be \<^verbatim>\<open>None\<close>.\<close>

definition AttributeError :: "string \<Rightarrow> exn" where
  "AttributeError name =
     Exception ([39] @ ustr ''NoneType'' @ [39] @ ustr '' object has no attribute '' @
                [39] @ ustr name @ [39])"

definition get_resume_text :: "resume option \<Rightarrow> exn + str" where
  "get_resume_text r =
     (case r of None \<Rightarrow> Inl (AttributeError ''resume_text'') | Some x \<Rightarrow> Inr (resume_text x))"

record history_entry =
  h_id :: "int option"
  h_resume_id :: "int option"
  h_job_id :: "int option"
  h_match_score :: "real option"
  h_ats_score :: real
  h_quality_score :: real
  h_created_at :: "timestamp option"
  resume_preview :: str
  jd_preview :: "str option"

text \<open>
  Line 163:
  \<^verbatim>\<open>(item.resume.resume_text[:200] + "...") if item.resume and
    len(item.resume.resume_text) > 200 else item.resume.resume_text\<close>
\<close>

definition build_resume_preview :: "db \<Rightarrow> analysis_result \<Rightarrow> exn + str" where
  "build_resume_preview d item =
     (if (case item_resume d item of None \<Rightarrow> False | Some r \<Rightarrow> 200 < length (resume_text r))
      then and_then (get_resume_text (item_resume d item)) (\<lambda>t. Inr (take 200 t @ ustr ''...''))
      else get_resume_text (item_resume d item))"

text \<open>
  Line 164:
  \<^verbatim>\<open>(item.job.job_description[:200] + "...") if item.job and
    len(item.job.job_description) > 200 else
    (item.job.job_description if item.job else None)\<close>
\<close>

definition build_jd_preview :: "db \<Rightarrow> analysis_result \<Rightarrow> str option" where
  "build_jd_preview d item =
     (case item_job d item of
        None \<Rightarrow> None
      | Some j \<Rightarrow>
          if 200 < length (job_description j)
          then Some (take 200 (job_description j) @ ustr ''...'')
          else Some (job_description j))"

text \<open>
  The dictionary appended for one row. The string of \<^verbatim>\<open>created_at.isoformat()\<close> is
  represented by the timestamp.
\<close>

definition history_item :: "db \<Rightarrow> analysis_result \<Rightarrow> exn + history_entry" where
  "history_item d item =
     and_then (build_resume_preview d item) (\<lambda>rp.
       Inr \<lparr>h_id = a_id item,
            h_resume_id = resume_id item,
            h_job_id = job_id item,
            h_match_score = match_score item,
            h_ats_score = ats_score item,
            h_quality_score = quality_score item,
            h_created_at = created_at item,
            resume_preview = rp,
            jd_preview = build_jd_preview d item\<rparr>)"

text \<open>The loop over the rows of the query: the first exception ends it.\<close>

fun history_loop :: "db \<Rightarrow> analysis_result list \<Rightarrow> exn + history_entry list" where
  "history_loop d [] = Inr []"
| "history_loop d (item # items) =
     and_then (history_item d item) (\<lambda>e.
     and_then (history_loop d items) (\<lambda>es. Inr (e # es)))"

definition get_history :: "env \<Rightarrow> request \<Rightarrow> db \<Rightarrow> history_entry list response \<times> db" where
  "get_history env request d0 =
     (let d = get_db d0;
          limit = get_limit env request
      in case and_then (query_history d limit) (history_loop d) of
           Inl e \<Rightarrow> ((JsonError (str_of e), 500), d)
         | Inr history \<Rightarrow> ((Jsonify history, 200), d))"

subsection \<open>\<^verbatim>\<open>GET /resume/<id>\<close> and \<^verbatim>\<open>GET /analysis/<id>\<close>\<close>

record resume_json =
  rj_id :: "int option"
  rj_resume_text :: str
  rj_created_at :: "timestamp option"
  rj_updated_at :: "timestamp option"

definition get_resume :: "int \<Rightarrow> db \<Rightarrow> resume_json response \<times> db" where
  "get_resume ident d0 =
     (let d = get_db d0 in
      case find (\<lambda>r. r_id r = Some ident) (resumes d) of
        None \<Rightarrow> ((JsonError (ustr ''Resume not found''), 404), d)
      | Some r \<Rightarrow>
          ((Jsonify \<lparr>rj_id = r_id r,
                     rj_resume_text = resume_text r,
                     rj_created_at = r_created_at r,
                     rj_updated_at = r_updated_at r\<rparr>, 200), d))"

record analysis_json =
  aj_id :: "int option"
  aj_resume_id :: "int option"
  aj_job_id :: "int option"
  aj_match_score :: "real option"
  aj_ats_score :: real
  aj_quality_score :: real
  aj_ats_flags :: ats_result
  aj_power_verb_suggestions :: power_verbs
  aj_match_details :: "match_result option"
  aj_created_at :: "timestamp option"
  aj_resume_text :: "str option"
  aj_job_description :: "str option"

definition get_analysis :: "int \<Rightarrow> db \<Rightarrow> analysis_json response \<times> db" where
  "get_analysis ident d0 =
     (let d = get_db d0 in
      case find (\<lambda>a. a_id a = Some ident) (analyses d) of
        None \<Rightarrow> ((JsonError (ustr ''Analysis result not found''), 404), d)
      | Some item \<Rightarrow>
          ((Jsonify \<lparr>aj_id = a_id item,
                     aj_resume_id = resume_id item,
                     aj_job_id = job_id item,
                     aj_match_score = match_score item,
                     aj_ats_score = ats_score item,
                     aj_quality_score = quality_score item,
                     aj_ats_flags = ats_flags item,
                     aj_power_verb_suggestions = power_verb_suggestions item,
                     aj_match_details = match_details item,
                     aj_created_at = created_at item,
                     aj_resume_text = map_option resume_text (item_resume d item),
                     aj_job_description = map_option job_description (item_job d item)\<rparr>,
            200), d))"

subsection \<open>Reading a response\<close>

text \<open>
  What a client finds under a key of the JSON object it receives: \<open>None\<close> when the key is
  absent, as in an error object, or \<^verbatim>\<open>null\<close>.
\<close>

definition body_match_score :: "results body \<Rightarrow> real option" where
  "body_match_score b = (case b of Jsonify r \<Rightarrow> res_match_score r | JsonError _ \<Rightarrow> None)"

definition body_match_details :: "results body \<Rightarrow> match_result option" where
  "body_match_details b = (case b of Jsonify r \<Rightarrow> res_match_details r | JsonError _ \<Rightarrow> None)"

definition body_job_id :: "results body \<Rightarrow> int option" where
  "body_job_id b = (case b of Jsonify r \<Rightarrow> res_job_id r | JsonError _ \<Rightarrow> None)"

text \<open>The entries of a JSON array; an error object has none.\<close>

definition body_list :: "'a list body \<Rightarrow> 'a list" where
  "body_list b = (case b of Jsonify xs \<Rightarrow> xs | JsonError _ \<Rightarrow> [])"

text \<open>The uploaded file that line 47 accepts, if there is one.\<close>

definition accepted_file :: "env \<Rightarrow> request \<Rightarrow> file_storage option" where
  "accepted_file env request =
     (case files request ''resume_file'' of
        None \<Rightarrow> None
      | Some file \<Rightarrow> if allowed_file env (filename file) then Some file else None)"

text \<open>The rows that a request has added to the table of analysis results.\<close>

definition new_analyses :: "db \<Rightarrow> db \<Rightarrow> analysis_result list" where
  "new_analyses d d' = drop (length (analyses d)) (analyses d')"

text \<open>The order of the history query, on rows.\<close>

definition newer_first :: "analysis_result \<Rightarrow> analysis_result \<Rightarrow> bool" where
  "newer_first x y = desc_before (created_at x) (created_at y)"

subsection \<open>Example inputs\<close>

definition ascii_lower :: "str \<Rightarrow> str" where
  "ascii_lower s = map (\<lambda>c. if 65 \<le> c \<and> c \<le> 90 then c + 32 else c) s"

definition env0 :: env where
  "env0 =
     \<lparr>ALLOWED_EXTENSIONS = {ustr ''pdf''},
      lower = ascii_lower,
      to_int = (\<lambda>s. if s = ustr ''0'' then Some 0
                    else if s = ustr ''1'' then Some 1
                    else if s = ustr ''2'' then Some 2
                    else None),
      extract_text_from_bytes = (\<lambda>b. Inr (if b = [] then None else Some (ustr ''Built APIs''))),
      compute_match_score = (\<lambda>r j. Inr \<lparr>mr_match_score = 50, mr_rest = JNull\<rparr>),
      check_compliance = (\<lambda>r. Inr \<lparr>ar_ats_score = 70, ar_rest = JNull\<rparr>),
      find_weak_verbs = (\<lambda>r. Inr []),
      get_power_verb_stats = (\<lambda>r. Inr JNull),
      score_resume = (\<lambda>r j. Inr \<lparr>qr_quality_score = 60, qr_rest = JNull\<rparr>),
      extract_insights = (\<lambda>r. Inr JNull)\<rparr>"

definition db0 :: db where
  "db0 = \<lparr>resumes = [], jobs = [], analyses = [], objects = [], clock = 0, oplog = [],
          faults = []\<rparr>"

text \<open>A resume as text, without and with a job description, and with an empty one.\<close>

definition req_text :: request where
  "req_text = \<lparr>files = Map.empty, form = [''resume_text'' \<mapsto> ustr ''Built scalable systems''],
               args = Map.empty\<rparr>"

definition req_text_jd :: request where
  "req_text_jd =
     \<lparr>files = Map.empty,
      form = [''resume_text'' \<mapsto> ustr ''Built scalable systems'',
              ''job_description'' \<mapsto> ustr ''Backend developer''],
      args = Map.empty\<rparr>"

definition req_text_empty_jd :: request where
  "req_text_empty_jd =
     \<lparr>files = Map.empty,
      form = [''resume_text'' \<mapsto> ustr ''Built scalable systems'', ''job_description'' \<mapsto> []],
      args = Map.empty\<rparr>"

text \<open>A job description without any resume.\<close>

definition req_jd_only :: request where
  "req_jd_only = \<lparr>files = Map.empty, form = [''job_description'' \<mapsto> ustr ''Backend developer''],
                  args = Map.empty\<rparr>"

text \<open>Nothing at all.\<close>

definition req_nothing :: request where
  "req_nothing = \<lparr>files = Map.empty, form = Map.empty, args = Map.empty\<rparr>"

text \<open>An accepted file from which no text can be read, next to a resume as text.\<close>

definition req_empty_pdf :: request where
  "req_empty_pdf =
     \<lparr>files = [''resume_file'' \<mapsto> \<lparr>filename = ustr ''cv.PDF'', content = []\<rparr>],
      form = Map.empty, args = Map.empty\<rparr>"

definition req_empty_pdf_text :: request where
  "req_empty_pdf_text =
     \<lparr>files = [''resume_file'' \<mapsto> \<lparr>filename = ustr ''cv.PDF'', content = []\<rparr>],
      form = [''resume_text'' \<mapsto> ustr ''Built scalable systems''], args = Map.empty\<rparr>"

text \<open>History requests for no entry, for one, for two, and with a limit that is no number.\<close>

definition req_limit_0 :: request where
  "req_limit_0 = \<lparr>files = Map.empty, form = Map.empty, args = [''limit'' \<mapsto> ustr ''0'']\<rparr>"

definition req_limit_1 :: request where
  "req_limit_1 = \<lparr>files = Map.empty, form = Map.empty, args = [''limit'' \<mapsto> ustr ''1'']\<rparr>"

definition req_limit_2 :: request where
  "req_limit_2 = \<lparr>files = Map.empty, form = Map.empty, args = [''limit'' \<mapsto> ustr ''2'']\<rparr>"

definition req_limit_abc :: request where
  "req_limit_abc =
     \<lparr>files = Map.empty, form = Map.empty, args = [''limit'' \<mapsto> ustr ''abc'']\<rparr>"

text \<open>
  A store with two analyses. The resume of the first is 201 characters long and has no
  job; the second, created later, has a short resume and a job.
\<close>

definition analysis_row :: "int \<Rightarrow> int \<Rightarrow> int option \<Rightarrow> timestamp \<Rightarrow> analysis_result" where
  "analysis_row k r j t =
     \<lparr>a_id = Some k, resume_id = Some r, job_id = j, match_score = None, ats_score = 70,
      quality_score = 60, ats_flags = \<lparr>ar_ats_score = 70, ar_rest = JNull\<rparr>,
      power_verb_suggestions = \<lparr>findings = [], stats = JNull\<rparr>, match_details = None,
      created_at = Some t\<rparr>"

definition db_two :: db where
  "db_two =
     \<lparr>resumes =
        [\<lparr>r_id = Some 1, resume_text = replicate 201 97, r_created_at = Some 0,
          r_updated_at = Some 0\<rparr>,
         \<lparr>r_id = Some 2, resume_text = ustr ''Built APIs'', r_created_at = Some 2,
          r_updated_at = Some 2\<rparr>],
      jobs = [\<lparr>j_id = Some 1, job_description = ustr ''Backend developer'',
               j_created_at = Some 3\<rparr>],
      analyses = [analysis_row 1 1 None 1, analysis_row 2 2 (Some 1) 4],
      objects = [], clock = 5, oplog = [], faults = []\<rparr>"

text \<open>A store whose only analysis refers to a resume that is not there.\<close>

definition db_orphan :: db where
  "db_orphan =
     \<lparr>resumes = [], jobs = [], analyses = [analysis_row 1 7 None 1],
      objects = [], clock = 2, oplog = [], faults = []\<rparr>"

section \<open>Properties\<close>

subsection \<open>Generated keys\<close>

lemma fold_max_ge: "(m::int) \<le> fold max xs m"
  by (induction xs arbitrary: m) (auto intro: order_trans [OF max.cobounded2])

lemma fold_max_mem: "(x::int) \<in> set xs \<Longrightarrow> x \<le> fold max xs m"
proof (induction xs arbitrary: m)
  case Nil
  then show ?case by simp
next
  case (Cons a xs)
  show ?case
  proof (cases "x = a")
    case True
    have "a \<le> max a m" by simp
    also have "\<dots> \<le> fold max xs (max a m)" by (rule fold_max_ge)
    finally show ?thesis using True by simp
  next
    case False
    with Cons show ?thesis by simp
  qed
qed

lemma next_id_fresh: "Some (next_id ks) \<notin> set ks"
proof
  assume "Some (next_id ks) \<in> set ks"
  then have "next_id ks \<in> set (map (\<lambda>k. case k of None \<Rightarrow> 0 | Some i \<Rightarrow> i) ks)"
    by force
  then have "next_id ks \<le> fold max (map (\<lambda>k. case k of None \<Rightarrow> 0 | Some i \<Rightarrow> i) ks) 0"
    by (rule fold_max_mem)
  then show False by (simp add: next_id_def)
qed

lemma next_id_fresh_image: "Some (next_id (map f xs)) \<notin> f ` set xs"
  using next_id_fresh [of "map f xs"] by simp

lemma find_snoc:
  "find P (xs @ [y]) =
     (case find P xs of None \<Rightarrow> if P y then Some y else None | Some v \<Rightarrow> Some v)"
  by (induction xs) auto

text \<open>A refresh finds the row that the commit before it has inserted.\<close>

lemma find_new_row:
  assumes "f y = Some (next_id (map f xs))"
  shows "find (\<lambda>x. f x = Some (next_id (map f xs))) (xs @ [y]) = Some y"
proof -
  have "find (\<lambda>x. f x = Some (next_id (map f xs))) xs = None"
    using next_id_fresh [of "map f xs"] by (force simp: find_None_iff)
  then show ?thesis using assms by (simp add: find_snoc)
qed

subsection \<open>The three inserts\<close>

lemmas session_defs = store_in_db_def insert_job_def db_add_def then_db_def db_commit_def
  db_refresh_def obj_id_def job_id_of_def Resume_def Job_def AnalysisResult_def Let_def

lemmas analyze_defs = analyze_resume_def get_db_def extract_resume_text_def truthy_def
  get_jd_text_def perform_analyses_def and_then_def allowed_file_def rsplit_dot_1_def dot_def

lemmas example_defs = env0_def db0_def req_text_def req_text_jd_def req_text_empty_jd_def
  req_jd_only_def req_nothing_def req_empty_pdf_def req_empty_pdf_text_def ascii_lower_def
  ustr_def next_id_def commit_outcome_def

lemma objects_get_db: "objects (get_db d) = []"
  by (simp add: get_db_def)

lemma tables_get_db:
  "resumes (get_db d) = resumes d" "jobs (get_db d) = jobs d"
  "analyses (get_db d) = analyses d" "oplog (get_db d) = oplog d"
  by (simp_all add: get_db_def)

text \<open>What a run of the three inserts that raises nowhere has done.\<close>

lemma store_in_db_Inr:
  assumes "objects d = []"
    and "store_in_db d text jd results = (Inr (aid, rid, jid), d')"
  shows "\<exists>r a ri ai.
           resumes d' = resumes d @ [r] \<and> r_id r = Some ri \<and> resume_text r = text \<and>
           Some ri \<notin> r_id ` set (resumes d) \<and>
           analyses d' = analyses d @ [a] \<and> a_id a = Some ai \<and>
           Some ai \<notin> a_id ` set (analyses d) \<and>
           resume_id a = Some ri \<and> job_id a = jid \<and>
           match_score a = res_match_score results \<and>
           match_details a = res_match_details results \<and>
           aid = Some ai \<and> rid = Some ri \<and>
           (if jd = []
            then jid = None \<and> jobs d' = jobs d \<and>
                 oplog d' = oplog d @
                   [Insert Resumes ri, Commit, Insert AnalysisResults ai, Commit]
            else \<exists>j ji. jid = Some ji \<and> jobs d' = jobs d @ [j] \<and> j_id j = Some ji \<and>
                   Some ji \<notin> j_id ` set (jobs d) \<and> job_description j = jd \<and>
                   oplog d' = oplog d @
                     [Insert Resumes ri, Commit, Insert Jobs ji, Commit,
                      Insert AnalysisResults ai, Commit])"
proof (cases "jd = []")
  case True
  with assms show ?thesis
    by (auto simp: session_defs find_new_row next_id_fresh_image split: option.splits)
next
  case False
  with assms show ?thesis
    by (auto simp: session_defs find_new_row next_id_fresh_image split: option.splits)
qed

text \<open>What any run of the three inserts has done, whether it raised or not.\<close>

lemma store_in_db_any:
  assumes "objects d = []"
    and "store_in_db d text jd results = (out, d')"
  shows "(jd = [] \<longrightarrow> jobs d' = jobs d) \<and>
         (analyses d' = analyses d \<and> (\<exists>e. out = Inl e) \<or>
          (\<exists>a ids. analyses d' = analyses d @ [a] \<and> out = Inr ids \<and>
             match_score a = res_match_score results \<and>
             match_details a = res_match_details results))"
proof (cases "jd = []")
  case True
  with assms show ?thesis
    by (auto simp: session_defs find_new_row split: option.splits)
next
  case False
  with assms show ?thesis
    by (auto simp: session_defs find_new_row split: option.splits)
qed

lemma perform_analyses_Inr:
  assumes "perform_analyses env text jd = Inr res"
  shows "(if jd = [] then res_match_score res = None \<and> res_match_details res = None
          else \<exists>mr. compute_match_score env text jd = Inr mr \<and>
                 res_match_score res = Some (mr_match_score mr) \<and>
                 res_match_details res = Some mr)"
  using assms
  by (auto simp: perform_analyses_def and_then_def split: sum.splits if_splits)

lemma extract_resume_text_Return:
  "extract_resume_text env request = Return r \<Longrightarrow> snd r = 400 \<and> (\<exists>m. fst r = JsonError m)"
  by (auto simp: extract_resume_text_def Let_def split: option.splits if_splits sum.splits)

text \<open>A status of 200 comes from the last line of the view only.\<close>

lemma analyze_resume_200:
  assumes "analyze_resume env request d0 = ((body, 200), d')"
  obtains t res aid rid jid where
    "extract_resume_text env request = Next t"
    "perform_analyses env t (get_jd_text request) = Inr res"
    "store_in_db (get_db d0) t (get_jd_text request) res = (Inr (aid, rid, jid), d')"
    "body = Jsonify (res\<lparr>res_analysis_id := aid, res_resume_id := rid, res_job_id := jid\<rparr>)"
proof (cases "extract_resume_text env request")
  case (Raise e)
  with assms show ?thesis by (simp add: analyze_resume_def)
next
  case (Return r)
  with assms extract_resume_text_Return [OF Return] show ?thesis
    by (auto simp: analyze_resume_def)
next
  case (Next t)
  with assms that show ?thesis
    by (auto simp: analyze_resume_def Let_def split: sum.splits prod.splits)
qed

lemma allowed_file_nonempty: "allowed_file env name \<Longrightarrow> name \<noteq> []"
  by (auto simp: allowed_file_def)

text \<open>The outcomes of the view, one by one.\<close>

lemma analyze_resume_cases:
  assumes "analyze_resume env request d0 = ((body, status), d')"
  obtains
    (early) m where "body = JsonError m" "status \<noteq> 200" "d' = get_db d0"
  | (stored) t res out where
      "extract_resume_text env request = Next t"
      "perform_analyses env t (get_jd_text request) = Inr res"
      "store_in_db (get_db d0) t (get_jd_text request) res = (out, d')"
      "case out of
         Inl e \<Rightarrow> body = JsonError (str_of e) \<and> status = 500
       | Inr (aid, rid, jid) \<Rightarrow>
           body = Jsonify (res\<lparr>res_analysis_id := aid, res_resume_id := rid,
                               res_job_id := jid\<rparr>) \<and> status = 200"
proof (cases "extract_resume_text env request")
  case (Raise e)
  with assms early show ?thesis by (auto simp: analyze_resume_def)
next
  case (Return r)
  with assms extract_resume_text_Return [OF Return] early show ?thesis
    by (cases r) (auto simp: analyze_resume_def)
next
  case (Next t)
  show ?thesis
  proof (cases "perform_analyses env t (get_jd_text request)")
    case (Inl e)
    with assms Next early show ?thesis by (auto simp: analyze_resume_def)
  next
    case (Inr res)
    with assms Next stored [of t res "fst (store_in_db (get_db d0) t (get_jd_text request) res)"]
    show ?thesis
      by (auto simp: analyze_resume_def Let_def split: sum.splits prod.splits)
  qed
qed

lemma analyze_resume_collapse:
  "analyze_resume env request d0 =
     ((fst (fst (analyze_resume env request d0)), snd (fst (analyze_resume env request d0))),
      snd (analyze_resume env request d0))"
  by simp

text \<open>Where the resume text comes from, by the accepted file.\<close>

lemma extract_resume_text_no_file:
  assumes "accepted_file env request = None"
  shows "extract_resume_text env request =
           (case form request ''resume_text'' of
              None \<Rightarrow> Return (JsonError (ustr ''No resume provided''), 400)
            | Some t \<Rightarrow>
                if t = [] then Return (JsonError (ustr ''No resume provided''), 400)
                else Next t)"
  using assms
  by (auto simp: accepted_file_def extract_resume_text_def truthy_def
      split: option.splits if_splits)

lemma extract_resume_text_file:
  assumes "accepted_file env request = Some f"
  shows "extract_resume_text env request =
           (case extract_text_from_bytes env (content f) of
              Inl e \<Rightarrow> Raise e
            | Inr v \<Rightarrow>
                if truthy v then Next (the v)
                else Return (JsonError (ustr ''Could not read PDF text''), 400))"
  using assms allowed_file_nonempty [of env "filename f"]
  by (auto simp: accepted_file_def extract_resume_text_def truthy_def
      split: option.splits if_splits sum.splits)

text \<open>The resume text depends on the uploaded file and on one form field only.\<close>

lemma extract_resume_text_cong:
  assumes "files r1 ''resume_file'' = files r2 ''resume_file''"
    and "form r1 ''resume_text'' = form r2 ''resume_text''"
  shows "extract_resume_text env r1 = extract_resume_text env r2"
  unfolding extract_resume_text_def assms ..

lemma extract_resume_text_env:
  assumes "ALLOWED_EXTENSIONS env1 = ALLOWED_EXTENSIONS env2"
    and "lower env1 = lower env2"
    and "extract_text_from_bytes env1 = extract_text_from_bytes env2"
  shows "extract_resume_text env1 request = extract_resume_text env2 request"
proof -
  have allowed: "allowed_file env1 = allowed_file env2"
    by (simp add: allowed_file_def fun_eq_iff assms)
  show ?thesis
    unfolding extract_resume_text_def assms(3) allowed ..
qed

subsection \<open>Claims about \<^verbatim>\<open>POST /analyze\<close>\<close>

text \<open>
  C1. Every analyze request that returns 200 has created exactly one Resume row and exactly
  one AnalysisResult row; the \<^verbatim>\<open>resume_id\<close> of the new AnalysisResult row, and the one
  returned, is the generated key of the new Resume row. The log of the store shows the
  inserts in the order Resume, Job (present exactly when the job description is not empty),
  AnalysisResult, each followed by its commit before the next insert, and the
  AnalysisResult row carries the keys generated by the inserts before it.
\<close>

theorem analyze_creates_rows_in_order:
  assumes "analyze_resume env request d0 = ((body, 200), d')"
  shows "\<exists>res r a ri ai.
           body = Jsonify res \<and>
           resumes d' = resumes d0 @ [r] \<and> r_id r = Some ri \<and>
           Some ri \<notin> r_id ` set (resumes d0) \<and>
           analyses d' = analyses d0 @ [a] \<and> a_id a = Some ai \<and>
           resume_id a = Some ri \<and> job_id a = res_job_id res \<and>
           res_resume_id res = Some ri \<and> res_analysis_id res = Some ai \<and>
           (res_job_id res \<noteq> None \<longleftrightarrow> get_jd_text request \<noteq> []) \<and>
           oplog d' = oplog d0 @ [Insert Resumes ri, Commit] @
             (case res_job_id res of None \<Rightarrow> [] | Some ji \<Rightarrow> [Insert Jobs ji, Commit]) @
             [Insert AnalysisResults ai, Commit]"
proof -
  from assms obtain t res aid rid jid where
    st: "store_in_db (get_db d0) t (get_jd_text request) res = (Inr (aid, rid, jid), d')"
    and body: "body = Jsonify (res\<lparr>res_analysis_id := aid, res_resume_id := rid, res_job_id := jid\<rparr>)"
    by (rule analyze_resume_200)
  from store_in_db_Inr [OF objects_get_db st] body show ?thesis
    by (auto simp: tables_get_db split: if_splits)
qed

theorem analyze_creates_rows_in_order_witness:
  "snd (fst (analyze_resume env0 req_text_jd db0)) = 200 \<and>
   (\<exists>res r a ri ai.
      fst (fst (analyze_resume env0 req_text_jd db0)) = Jsonify res \<and>
      resumes (snd (analyze_resume env0 req_text_jd db0)) = resumes db0 @ [r] \<and>
      r_id r = Some ri \<and>
      analyses (snd (analyze_resume env0 req_text_jd db0)) = analyses db0 @ [a] \<and>
      a_id a = Some ai \<and> resume_id a = Some ri \<and> res_resume_id res = Some ri \<and>
      oplog (snd (analyze_resume env0 req_text_jd db0)) =
        oplog db0 @ [Insert Resumes ri, Commit] @
          (case res_job_id res of None \<Rightarrow> [] | Some ji \<Rightarrow> [Insert Jobs ji, Commit]) @
          [Insert AnalysisResults ai, Commit])"
proof -
  have st: "snd (fst (analyze_resume env0 req_text_jd db0)) = 200"
    by (simp add: analyze_defs session_defs example_defs)
  then have h: "analyze_resume env0 req_text_jd db0 =
      ((fst (fst (analyze_resume env0 req_text_jd db0)), 200),
       snd (analyze_resume env0 req_text_jd db0))"
    by (metis prod.collapse)
  from analyze_creates_rows_in_order [OF h] st show ?thesis by blast
qed

text \<open>
  C2. For every analyze request, \<^verbatim>\<open>match_score\<close> and \<^verbatim>\<open>match_details\<close> of the response are
  both there or both missing, and on a 200 response they are there exactly when the job
  description is not empty. The rows that were in the table stay as they were, and a row
  that the request adds carries the two values of the response. When the job description
  is absent or empty, both are null in the response and in the row that the request has
  stored.
\<close>

theorem match_fields_together:
  assumes "analyze_resume env request d0 = ((body, status), d')"
  shows "(body_match_score body = None \<longleftrightarrow> body_match_details body = None) \<and>
         (status = 200 \<longrightarrow> (body_match_score body \<noteq> None \<longleftrightarrow> get_jd_text request \<noteq> [])) \<and>
         take (length (analyses d0)) (analyses d') = analyses d0 \<and>
         (\<forall>a \<in> set (new_analyses d0 d').
            (match_score a = None \<longleftrightarrow> match_details a = None) \<and>
            match_score a = body_match_score body \<and>
            match_details a = body_match_details body) \<and>
         (get_jd_text request = [] \<longrightarrow>
            body_match_score body = None \<and> body_match_details body = None \<and>
            (\<forall>a \<in> set (new_analyses d0 d'). match_score a = None \<and> match_details a = None))"
  using assms
proof (cases rule: analyze_resume_cases)
  case (early m)
  then show ?thesis
    by (simp add: body_match_score_def body_match_details_def new_analyses_def tables_get_db)
next
  case (stored t res out)
  from store_in_db_any [OF objects_get_db stored(3)] perform_analyses_Inr [OF stored(2)] stored(4)
  show ?thesis
    by (auto simp: body_match_score_def body_match_details_def new_analyses_def tables_get_db
        split: if_splits)
qed

theorem match_fields_together_witness:
  "get_jd_text req_text = [] \<and>
   snd (fst (analyze_resume env0 req_text db0)) = 200 \<and>
   body_match_score (fst (fst (analyze_resume env0 req_text db0))) = None \<and>
   body_match_details (fst (fst (analyze_resume env0 req_text db0))) = None \<and>
   map match_score (new_analyses db0 (snd (analyze_resume env0 req_text db0))) = [None] \<and>
   map match_details (new_analyses db0 (snd (analyze_resume env0 req_text db0))) = [None]"
  using match_fields_together [OF analyze_resume_collapse, of env0 req_text db0]
  by (simp add: analyze_defs session_defs example_defs new_analyses_def body_match_score_def
      body_match_details_def)

text \<open>
  C3, as stated: a Job row is created if and only if a job description was supplied. It
  fails for a request that supplies a job description and no resume: the view answers 400
  on line 56, before any insert, so no Job row is created.
\<close>

theorem job_row_counterexample:
  "get_jd_text req_jd_only \<noteq> [] \<and>
   fst (analyze_resume env0 req_jd_only db0) = (JsonError (ustr ''No resume provided''), 400) \<and>
   jobs (snd (analyze_resume env0 req_jd_only db0)) = jobs db0"
  by (simp add: analyze_defs example_defs)

text \<open>
  C3, amended. For every analyze request that returns 200, a Job row is created if and only
  if the job description is not empty; when it is, the returned \<^verbatim>\<open>job_id\<close> and the
  \<^verbatim>\<open>job_id\<close> of the stored AnalysisResult row both are the generated key of the new Job
  row, which holds the job description; when it is empty, the returned \<^verbatim>\<open>job_id\<close> and
  that of the stored row are null. For every analyze request, whatever its status, an
  absent or empty job description means that no Job row is created and that no \<^verbatim>\<open>job_id\<close>
  is returned.
\<close>

theorem job_row_on_success:
  assumes "analyze_resume env request d0 = ((body, status), d')"
  shows "(status = 200 \<longrightarrow>
            (if get_jd_text request = []
             then jobs d' = jobs d0 \<and> body_job_id body = None \<and>
                  (\<exists>a. analyses d' = analyses d0 @ [a] \<and> job_id a = None)
             else \<exists>j ji a.
                    jobs d' = jobs d0 @ [j] \<and> j_id j = Some ji \<and>
                    Some ji \<notin> j_id ` set (jobs d0) \<and>
                    job_description j = get_jd_text request \<and>
                    body_job_id body = Some ji \<and>
                    analyses d' = analyses d0 @ [a] \<and> job_id a = Some ji)) \<and>
         (get_jd_text request = [] \<longrightarrow> jobs d' = jobs d0 \<and> body_job_id body = None)"
  using assms
proof (cases rule: analyze_resume_cases)
  case (early m)
  then show ?thesis by (simp add: body_job_id_def tables_get_db)
next
  case (stored t res out)
  show ?thesis
  proof (cases out)
    case (Inl e)
    with store_in_db_any [OF objects_get_db stored(3)] stored(4) show ?thesis
      by (auto simp: body_job_id_def tables_get_db)
  next
    case (Inr ids)
    obtain aid rid jid where ids: "ids = (aid, rid, jid)" by (cases ids)
    from store_in_db_Inr [OF objects_get_db stored(3) [unfolded Inr ids]] stored(4) Inr ids
    show ?thesis
      by (auto simp: body_job_id_def tables_get_db split: if_splits)
  qed
qed

theorem job_row_on_success_witness:
  "snd (fst (analyze_resume env0 req_text_jd db0)) = 200 \<and>
   get_jd_text req_text_jd \<noteq> [] \<and>
   map j_id (jobs (snd (analyze_resume env0 req_text_jd db0))) = [Some 1] \<and>
   body_job_id (fst (fst (analyze_resume env0 req_text_jd db0))) = Some 1 \<and>
   map job_id (analyses (snd (analyze_resume env0 req_text_jd db0))) = [Some 1] \<and>
   get_jd_text req_text = [] \<and>
   jobs (snd (analyze_resume env0 req_text db0)) = jobs db0 \<and>
   body_job_id (fst (fst (analyze_resume env0 req_text db0))) = None"
  using job_row_on_success [OF analyze_resume_collapse, of env0 req_text_jd db0]
    job_row_on_success [OF analyze_resume_collapse, of env0 req_text db0]
  by (simp add: analyze_defs session_defs example_defs body_job_id_def)

text \<open>
  C4, as stated: when neither an accepted file nor the field \<^verbatim>\<open>resume_text\<close> yields a
  resume text, the answer is the input error "No resume provided". It fails for an accepted
  file from which no text can be read: line 50 answers with the input error "Could not read
  PDF text".
\<close>

theorem no_resume_counterexample:
  "accepted_file env0 req_empty_pdf = Some \<lparr>filename = ustr ''cv.PDF'', content = []\<rparr> \<and>
   extract_text_from_bytes env0 [] = Inr None \<and>
   form req_empty_pdf ''resume_text'' = None \<and>
   fst (analyze_resume env0 req_empty_pdf db0) =
     (JsonError (ustr ''Could not read PDF text''), 400) \<and>
   ustr ''Could not read PDF text'' \<noteq> ustr ''No resume provided''"
  by (simp add: analyze_defs example_defs accepted_file_def)

text \<open>
  C4, amended. When the field \<^verbatim>\<open>resume_text\<close> is missing or empty and either no accepted
  file is attached or the text extraction returns no usable text for the accepted file,
  the view answers 400 and writes no row: no Resume, Job or AnalysisResult row is inserted
  and the log of the store stays as it was. The message is "No resume provided" when no
  accepted file is attached and "Could not read PDF text" otherwise.
\<close>

theorem no_resume_input_error:
  assumes "case accepted_file env request of
             None \<Rightarrow> True
           | Some f \<Rightarrow> \<exists>v. extract_text_from_bytes env (content f) = Inr v \<and> \<not> truthy v"
    and "\<not> truthy (form request ''resume_text'')"
    and "analyze_resume env request d0 = (response, d')"
  shows "response =
           (JsonError (ustr (if accepted_file env request = None then ''No resume provided''
                             else ''Could not read PDF text'')), 400) \<and>
         resumes d' = resumes d0 \<and> jobs d' = jobs d0 \<and> analyses d' = analyses d0 \<and>
         oplog d' = oplog d0"
proof (cases "accepted_file env request")
  case None
  with assms(2,3) extract_resume_text_no_file [OF None] show ?thesis
    by (auto simp: analyze_resume_def truthy_def tables_get_db split: option.splits if_splits)
next
  case (Some f)
  with assms(1,3) extract_resume_text_file [OF Some] show ?thesis
    by (auto simp: analyze_resume_def tables_get_db)
qed

theorem no_resume_input_error_witness:
  "accepted_file env0 req_nothing = None \<and>
   form req_nothing ''resume_text'' = None \<and>
   analyze_resume env0 req_nothing db0 = ((JsonError (ustr ''No resume provided''), 400), db0) \<and>
   accepted_file env0 req_empty_pdf = Some \<lparr>filename = ustr ''cv.PDF'', content = []\<rparr> \<and>
   extract_text_from_bytes env0 [] = Inr None \<and>
   analyze_resume env0 req_empty_pdf db0 =
     ((JsonError (ustr ''Could not read PDF text''), 400), db0)"
proof -
  have a: "accepted_file env0 req_nothing = None"
    by (simp add: accepted_file_def example_defs)
  have b: "\<not> truthy (form req_nothing ''resume_text'')"
    by (simp add: truthy_def example_defs)
  have c: "accepted_file env0 req_empty_pdf = Some \<lparr>filename = ustr ''cv.PDF'', content = []\<rparr>"
    by (simp add: accepted_file_def allowed_file_def rsplit_dot_1_def dot_def example_defs)
  have d: "extract_text_from_bytes env0 [] = Inr None"
    by (simp add: example_defs)
  have e: "\<not> truthy (form req_empty_pdf ''resume_text'')"
    by (simp add: truthy_def example_defs)
  from no_resume_input_error [of env0 req_nothing db0, OF _ b surjective_pairing]
    no_resume_input_error [of env0 req_empty_pdf db0, OF _ e surjective_pairing] a c d
  show ?thesis
    by (simp add: analyze_defs example_defs)
qed

text \<open>
  C5. For an uploaded file whose file name passes \<^verbatim>\<open>allowed_file\<close>: when the text extraction
  returns \<^verbatim>\<open>None\<close> or the empty string, the view answers with a 400 input error; and
  the field \<^verbatim>\<open>resume_text\<close> is never consulted, in that case or in any other: the answer
  and the store after the request are the same whatever that field holds.
\<close>

theorem unreadable_file_no_fallback:
  assumes "files request ''resume_file'' = Some f"
    and "allowed_file env (filename f)"
  shows "(\<forall>v. extract_text_from_bytes env (content f) = Inr v \<and> \<not> truthy v \<longrightarrow>
            fst (analyze_resume env request d0) =
              (JsonError (ustr ''Could not read PDF text''), 400)) \<and>
         (\<forall>v. analyze_resume env (request\<lparr>form := (form request)(''resume_text'' := v)\<rparr>) d0 =
               analyze_resume env request d0)"
proof -
  from assms have acc: "accepted_file env request = Some f"
    by (simp add: accepted_file_def)
  have acc': "accepted_file env (request\<lparr>form := (form request)(''resume_text'' := v)\<rparr>) = Some f"
    for v
    using assms by (simp add: accepted_file_def)
  have ex: "extract_resume_text env (request\<lparr>form := (form request)(''resume_text'' := v)\<rparr>) =
      extract_resume_text env request" for v
    by (simp add: extract_resume_text_file [OF acc] extract_resume_text_file [OF acc'])
  have jd: "get_jd_text (request\<lparr>form := (form request)(''resume_text'' := v)\<rparr>) =
      get_jd_text request" for v
    by (simp add: get_jd_text_def)
  have same: "analyze_resume env (request\<lparr>form := (form request)(''resume_text'' := v)\<rparr>) d0 =
      analyze_resume env request d0" for v
    unfolding analyze_resume_def Let_def ex jd ..
  have "fst (analyze_resume env request d0) =
      (JsonError (ustr ''Could not read PDF text''), 400)"
    if "extract_text_from_bytes env (content f) = Inr v" "\<not> truthy v" for v
    using that by (simp add: analyze_resume_def extract_resume_text_file [OF acc])
  with same show ?thesis by blast
qed

theorem unreadable_file_no_fallback_witness:
  "files req_empty_pdf_text ''resume_file'' = Some \<lparr>filename = ustr ''cv.PDF'', content = []\<rparr> \<and>
   allowed_file env0 (ustr ''cv.PDF'') \<and>
   extract_text_from_bytes env0 [] = Inr None \<and>
   form req_empty_pdf_text ''resume_text'' = Some (ustr ''Built scalable systems'') \<and>
   fst (analyze_resume env0 req_empty_pdf_text db0) =
     (JsonError (ustr ''Could not read PDF text''), 400)"
proof -
  have a: "files req_empty_pdf_text ''resume_file'' =
      Some \<lparr>filename = ustr ''cv.PDF'', content = []\<rparr>"
    by (simp add: example_defs)
  have b: "allowed_file env0 (filename \<lparr>filename = ustr ''cv.PDF'', content = []\<rparr>)"
    by (simp add: allowed_file_def rsplit_dot_1_def dot_def example_defs)
  have c: "extract_text_from_bytes env0 (content \<lparr>filename = ustr ''cv.PDF'', content = []\<rparr>) =
      Inr None \<and> \<not> truthy None"
    by (simp add: example_defs truthy_def)
  have d: "form req_empty_pdf_text ''resume_text'' = Some (ustr ''Built scalable systems'')"
    by (simp add: req_empty_pdf_text_def)
  from unreadable_file_no_fallback [OF a b, of db0] a b c d show ?thesis
    by simp
qed

text \<open>
  C9. An analyze request whose field \<^verbatim>\<open>job_description\<close> is the empty string behaves, in
  its answer and in the store it leaves, as the same request without that field. The
  match scorer is not consulted: replacing it by any other leaves the outcome unchanged.
  \<^verbatim>\<open>match_score\<close>, \<^verbatim>\<open>match_details\<close> and \<^verbatim>\<open>job_id\<close> of the answer are null and no Job
  row is created.
\<close>

theorem empty_job_description_is_absent:
  assumes "form request ''job_description'' = Some []"
    and "analyze_resume env request d0 = ((body, status), d')"
  shows "analyze_resume env (request\<lparr>form := (form request)(''job_description'' := None)\<rparr>) d0 =
           ((body, status), d') \<and>
         (\<forall>f. analyze_resume (env\<lparr>compute_match_score := f\<rparr>) request d0 =
                 ((body, status), d')) \<and>
         body_match_score body = None \<and> body_match_details body = None \<and>
         jobs d' = jobs d0 \<and> body_job_id body = None"
proof -
  let ?r = "request\<lparr>form := (form request)(''job_description'' := None)\<rparr>"
  have jd: "get_jd_text request = []" "get_jd_text ?r = []"
    using assms(1) by (simp_all add: get_jd_text_def)
  have ex: "extract_resume_text env ?r = extract_resume_text env request"
    by (rule extract_resume_text_cong) simp_all
  have same: "analyze_resume env ?r d0 = analyze_resume env request d0"
    unfolding analyze_resume_def Let_def jd ex ..
  have ex': "extract_resume_text (env\<lparr>compute_match_score := f\<rparr>) request =
      extract_resume_text env request" for f
    by (rule extract_resume_text_env) simp_all
  have pa: "perform_analyses (env\<lparr>compute_match_score := f\<rparr>) t [] = perform_analyses env t []"
    for f t
    by (simp add: perform_analyses_def)
  have skip: "analyze_resume (env\<lparr>compute_match_score := f\<rparr>) request d0 =
      analyze_resume env request d0" for f
    unfolding analyze_resume_def Let_def jd ex' pa ..
  from assms(2) have rest: "body_match_score body = None \<and> body_match_details body = None \<and>
      jobs d' = jobs d0 \<and> body_job_id body = None"
  proof (cases rule: analyze_resume_cases)
    case (early m)
    then show ?thesis
      by (simp add: body_match_score_def body_match_details_def body_job_id_def tables_get_db)
  next
    case (stored t res out)
    show ?thesis
    proof (cases out)
      case (Inl e)
      with store_in_db_any [OF objects_get_db stored(3)] stored(4) jd show ?thesis
        by (auto simp: body_match_score_def body_match_details_def body_job_id_def
            tables_get_db)
    next
      case (Inr ids)
      obtain aid rid jid where ids: "ids = (aid, rid, jid)" by (cases ids)
      from store_in_db_Inr [OF objects_get_db stored(3) [unfolded Inr ids]]
        perform_analyses_Inr [OF stored(2)] stored(4) Inr ids jd
      show ?thesis
        by (auto simp: body_match_score_def body_match_details_def body_job_id_def
            tables_get_db)
    qed
  qed
  from same skip rest assms(2) show ?thesis by simp
qed

theorem empty_job_description_is_absent_witness:
  "form req_text_empty_jd ''job_description'' = Some [] \<and>
   req_text_empty_jd\<lparr>form := (form req_text_empty_jd)(''job_description'' := None)\<rparr> = req_text \<and>
   analyze_resume env0 req_text_empty_jd db0 = analyze_resume env0 req_text db0 \<and>
   snd (fst (analyze_resume env0 req_text_empty_jd db0)) = 200 \<and>
   body_match_score (fst (fst (analyze_resume env0 req_text_empty_jd db0))) = None \<and>
   body_job_id (fst (fst (analyze_resume env0 req_text_empty_jd db0))) = None \<and>
   jobs (snd (analyze_resume env0 req_text_empty_jd db0)) = []"
proof -
  have a: "form req_text_empty_jd ''job_description'' = Some []"
    by (simp add: req_text_empty_jd_def)
  have b: "req_text_empty_jd\<lparr>form := (form req_text_empty_jd)(''job_description'' := None)\<rparr> =
      req_text"
    by (simp add: req_text_empty_jd_def req_text_def fun_upd_twist)
  have c: "snd (fst (analyze_resume env0 req_text_empty_jd db0)) = 200"
    by (simp add: analyze_defs session_defs example_defs)
  have d: "jobs db0 = []"
    by (simp add: db0_def)
  note t = empty_job_description_is_absent [OF a analyze_resume_collapse, of env0 db0]
  from t have e: "analyze_resume env0 req_text_empty_jd db0 = analyze_resume env0 req_text db0"
    unfolding b by simp
  from t a b c d e show ?thesis
    by simp
qed

subsection \<open>The history query\<close>

lemma desc_before_total: "desc_before a b \<or> desc_before b a"
  by (auto simp: desc_before_def split: option.splits)

lemma desc_before_trans: "desc_before a b \<Longrightarrow> desc_before b c \<Longrightarrow> desc_before a c"
  by (auto simp: desc_before_def split: option.splits)

lemma newer_first_trans: "newer_first x y \<Longrightarrow> newer_first y z \<Longrightarrow> newer_first x z"
  unfolding newer_first_def by (rule desc_before_trans)

lemma mset_insert_desc: "mset (insert_desc x xs) = add_mset x (mset xs)"
  by (induction xs) auto

lemma mset_order_by: "mset (order_by_created_at_desc xs) = mset xs"
  by (induction xs) (auto simp: mset_insert_desc)

lemma set_insert_desc: "set (insert_desc x xs) = insert x (set xs)"
  using mset_insert_desc [of x xs, THEN arg_cong, of set_mset] by simp

lemma sorted_insert_desc:
  "sorted_wrt newer_first xs \<Longrightarrow> sorted_wrt newer_first (insert_desc x xs)"
proof (induction xs)
  case Nil
  then show ?case by simp
next
  case (Cons y ys)
  show ?case
  proof (cases "desc_before (created_at x) (created_at y)")
    case True
    then have "newer_first x y" by (simp add: newer_first_def)
    with Cons.prems have "\<forall>z \<in> set (y # ys). newer_first x z"
      by (auto intro: newer_first_trans)
    with True Cons.prems show ?thesis by simp
  next
    case False
    then have "newer_first y x"
      using desc_before_total [of "created_at x" "created_at y"] by (simp add: newer_first_def)
    with False Cons show ?thesis by (auto simp: set_insert_desc)
  qed
qed

lemma sorted_order_by: "sorted_wrt newer_first (order_by_created_at_desc xs)"
  by (induction xs) (auto intro: sorted_insert_desc)

text \<open>The first rows of a sorted list come before all the others.\<close>

lemma sorted_take_before_rest:
  assumes "sorted_wrt R xs"
  shows "\<forall>y \<in> set (take n xs). \<forall>x \<in># mset xs - mset (take n xs). R y x"
proof -
  have "mset xs = mset (take n xs) + mset (drop n xs)"
    by (metis append_take_drop_id mset_append)
  then have rest: "mset xs - mset (take n xs) = mset (drop n xs)" by simp
  from assms have "sorted_wrt R (take n xs @ drop n xs)" by simp
  then have "\<forall>y \<in> set (take n xs). \<forall>x \<in> set (drop n xs). R y x"
    by (simp only: sorted_wrt_append) blast
  with rest show ?thesis by simp
qed

lemma query_history_Inr:
  assumes "query_history d n = Inr rows"
  shows "0 \<le> n \<and> n < 2 ^ 63 \<and> int (length rows) \<le> n \<and>
         length rows = min (nat n) (length (analyses d)) \<and>
         mset rows \<subseteq># mset (analyses d) \<and>
         sorted_wrt newer_first rows \<and>
         (\<forall>y \<in> set rows. \<forall>x \<in># mset (analyses d) - mset rows. newer_first y x)"
proof -
  let ?s = "order_by_created_at_desc (analyses d)"
  from assms have n: "0 \<le> n" "n < 2 ^ 63" and rows: "rows = take (nat n) ?s"
    by (auto simp: query_history_def split: if_splits)
  have len: "length ?s = length (analyses d)"
    using mset_order_by [of "analyses d", THEN arg_cong, of size] by simp
  have sub: "mset rows \<subseteq># mset (analyses d)"
    unfolding rows
    by (metis append_take_drop_id mset_append mset_order_by mset_subset_eq_add_left)
  have srt: "sorted_wrt newer_first rows"
    unfolding rows using sorted_order_by by (rule sorted_wrt_take)
  have top: "\<forall>y \<in> set rows. \<forall>x \<in># mset (analyses d) - mset rows. newer_first y x"
    using sorted_take_before_rest [OF sorted_order_by, of "nat n" "analyses d"]
    by (simp add: rows mset_order_by)
  have cnt: "length rows = min (nat n) (length (analyses d))"
    by (simp add: rows len min.commute)
  with n have "int (length rows) \<le> n" by linarith
  with n cnt sub srt top show ?thesis
    by simp
qed

subsection \<open>The loop of the history view\<close>

lemma item_get_db:
  "item_resume (get_db d) = item_resume d" "item_job (get_db d) = item_job d"
  by (auto simp: item_resume_def item_job_def get_db_def fun_eq_iff split: option.splits)

lemma history_item_get_db: "history_item (get_db d) = history_item d"
  by (simp add: history_item_def build_resume_preview_def build_jd_preview_def item_get_db
      fun_eq_iff)

lemma history_item_None:
  "item_resume d item = None \<Longrightarrow> history_item d item = Inl (AttributeError ''resume_text'')"
  by (simp add: history_item_def build_resume_preview_def get_resume_text_def and_then_def)

lemma history_item_Some:
  "item_resume d item = Some r \<Longrightarrow>
   history_item d item =
     Inr \<lparr>h_id = a_id item, h_resume_id = resume_id item, h_job_id = job_id item,
          h_match_score = match_score item, h_ats_score = ats_score item,
          h_quality_score = quality_score item, h_created_at = created_at item,
          resume_preview =
            (if 200 < length (resume_text r) then take 200 (resume_text r) @ ustr ''...''
             else resume_text r),
          jd_preview = build_jd_preview d item\<rparr>"
  by (simp add: history_item_def build_resume_preview_def get_resume_text_def and_then_def)

lemma history_loop_Inr:
  "history_loop d rows = Inr es \<Longrightarrow> map (history_item d) rows = map Inr es"
  by (induction rows arbitrary: es) (auto simp: and_then_def split: sum.splits)

lemma history_loop_Inl:
  "item \<in> set rows \<Longrightarrow> item_resume d item = None \<Longrightarrow>
   history_loop d rows = Inl (AttributeError ''resume_text'')"
proof (induction rows)
  case Nil
  then show ?case by simp
next
  case (Cons a rows)
  show ?case
  proof (cases "item_resume d a")
    case None
    then show ?thesis by (simp add: history_item_None and_then_def)
  next
    case (Some r)
    with Cons show ?thesis
      by (auto simp: history_item_Some and_then_def)
  qed
qed

lemma history_loop_total:
  "\<forall>item \<in> set rows. item_resume d item \<noteq> None \<Longrightarrow> \<exists>es. history_loop d rows = Inr es"
proof (induction rows)
  case Nil
  then show ?case by simp
next
  case (Cons a rows)
  then obtain r es where "item_resume d a = Some r" "history_loop d rows = Inr es"
    by auto
  then show ?case by (simp add: history_item_Some and_then_def)
qed

lemma get_history_Jsonify:
  assumes "get_history env request d0 = ((Jsonify history, status), d')"
  obtains rows where
    "query_history d0 (get_limit env request) = Inr rows"
    "history_loop d0 rows = Inr history"
    "status = 200" "d' = get_db d0"
proof -
  have q: "query_history (get_db d0) = query_history d0"
    by (simp add: query_history_def get_db_def fun_eq_iff)
  have l: "history_loop (get_db d0) rows = history_loop d0 rows" for rows
    by (induction rows) (simp_all add: history_item_get_db)
  from assms that show ?thesis
    by (auto simp: get_history_def Let_def and_then_def q l split: sum.splits)
qed


lemma history_loop_created_at:
  "history_loop d rows = Inr es \<Longrightarrow> map h_created_at es = map created_at rows"
proof (induction rows arbitrary: es)
  case Nil
  then show ?case by simp
next
  case (Cons a rows)
  then show ?case
    by (cases "item_resume d a")
      (auto simp: history_item_None history_item_Some and_then_def split: sum.splits)
qed

lemma history_loop_member:
  "history_loop d rows = Inr es \<Longrightarrow> e \<in> set es \<Longrightarrow>
   \<exists>item \<in> set rows. history_item d item = Inr e"
proof (induction rows arbitrary: es)
  case Nil
  then show ?case by simp
next
  case (Cons a rows)
  then show ?case
    by (auto simp: and_then_def split: sum.splits)
qed

lemma query_history_subset:
  assumes "query_history d n = Inr rows"
  shows "set rows \<subseteq> set (analyses d)"
proof -
  from query_history_Inr [OF assms] have "mset rows \<subseteq># mset (analyses d)" by simp
  then have "set_mset (mset rows) \<subseteq> set_mset (mset (analyses d))" by (rule set_mset_mono)
  then show ?thesis by simp
qed

lemmas history_defs = get_history_def get_limit_def query_history_def and_then_def
  history_item_def build_resume_preview_def build_jd_preview_def get_resume_text_def
  item_resume_def item_job_def desc_before_def get_db_def body_list_def

lemmas history_example_defs = env0_def req_nothing_def req_limit_0_def req_limit_1_def
  req_limit_2_def req_limit_abc_def db_two_def db_orphan_def
  analysis_row_def ustr_def

lemma length_ustr: "length (ustr s) = length s"
  by (simp add: ustr_def)

lemma build_jd_preview_length: "build_jd_preview d item = Some p \<Longrightarrow> length p \<le> 203"
  by (auto simp: build_jd_preview_def length_ustr split: option.splits if_splits)

text \<open>What a history answer that is a list holds, in terms of the limit that the view read.\<close>

lemma get_history_list:
  "(0 \<le> get_limit env request \<and> get_limit env request < 2 ^ 63 \<and>
    (\<forall>item \<in> set (analyses d0). item_resume d0 item \<noteq> None) \<longrightarrow>
      (\<exists>history. fst (get_history env request d0) = (Jsonify history, 200))) \<and>
   (\<forall>history status. fst (get_history env request d0) = (Jsonify history, status) \<longrightarrow>
      int (length history) \<le> get_limit env request \<and>
      sorted_wrt (\<lambda>e1 e2. desc_before (h_created_at e1) (h_created_at e2)) history \<and>
      (\<exists>rows. map (history_item d0) rows = map Inr history \<and>
         length rows = min (nat (get_limit env request)) (length (analyses d0)) \<and>
         mset rows \<subseteq># mset (analyses d0) \<and>
         sorted_wrt newer_first rows \<and>
         (\<forall>y \<in> set rows. \<forall>x \<in># mset (analyses d0) - mset rows. newer_first y x)))"
proof (intro conjI allI impI)
  assume a: "0 \<le> get_limit env request \<and> get_limit env request < 2 ^ 63 \<and>
    (\<forall>item \<in> set (analyses d0). item_resume d0 item \<noteq> None)"
  let ?rows = "take (nat (get_limit env request)) (order_by_created_at_desc (analyses d0))"
  from a have q: "query_history (get_db d0) (get_limit env request) = Inr ?rows"
    by (simp add: query_history_def get_db_def)
  then have "set ?rows \<subseteq> set (analyses (get_db d0))" by (rule query_history_subset)
  then have "set ?rows \<subseteq> set (analyses d0)" by (simp add: tables_get_db)
  with a have "\<forall>item \<in> set ?rows. item_resume (get_db d0) item \<noteq> None"
    unfolding item_get_db by blast
  then obtain es where "history_loop (get_db d0) ?rows = Inr es"
    using history_loop_total by blast
  with q show "\<exists>history. fst (get_history env request d0) = (Jsonify history, 200)"
    by (simp add: get_history_def and_then_def)
next
  fix history status
  assume "fst (get_history env request d0) = (Jsonify history, status)"
  then have "get_history env request d0 =
      ((Jsonify history, status), snd (get_history env request d0))"
    by (metis prod.collapse)
  then obtain rows where q: "query_history d0 (get_limit env request) = Inr rows"
    and l: "history_loop d0 rows = Inr history"
    by (rule get_history_Jsonify)
  note qs = query_history_Inr [OF q]
  have len: "length history = length rows"
    using history_loop_Inr [OF l, THEN arg_cong, of length] by simp
  with qs show "int (length history) \<le> get_limit env request" by simp
  have nf: "newer_first = (\<lambda>x y. desc_before (created_at x) (created_at y))"
    by (simp add: fun_eq_iff newer_first_def)
  from qs have "sorted_wrt newer_first rows" by simp
  then have "sorted_wrt desc_before (map created_at rows)"
    by (simp add: sorted_wrt_map nf)
  then have "sorted_wrt desc_before (map h_created_at history)"
    by (simp add: history_loop_created_at [OF l])
  then show "sorted_wrt (\<lambda>e1 e2. desc_before (h_created_at e1) (h_created_at e2)) history"
    by (simp add: sorted_wrt_map)
  from qs history_loop_Inr [OF l]
  show "\<exists>rows. map (history_item d0) rows = map Inr history \<and>
         length rows = min (nat (get_limit env request)) (length (analyses d0)) \<and>
         mset rows \<subseteq># mset (analyses d0) \<and>
         sorted_wrt newer_first rows \<and>
         (\<forall>y \<in> set rows. \<forall>x \<in># mset (analyses d0) - mset rows. newer_first y x)"
    by blast
qed

subsection \<open>Claims about \<^verbatim>\<open>GET /history\<close>\<close>

text \<open>
  C6. The limit of a history request is the integer that the parameter \<^verbatim>\<open>limit\<close> holds,
  and 20 when the parameter is missing or is not an integer. When the view answers with a
  list, the list has at most as many entries as that limit says, namely the smaller of
  the limit and the number of stored rows; its entries are those of rows of the
  AnalysisResult table, in descending order of their creation time; and every stored row
  that is not shown was created no later than every row that is shown. The view does
  answer with a list when the limit is a non-negative 64-bit integer and every stored row
  has its resume.
\<close>

theorem history_most_recent:
  "(args request ''limit'' = None \<longrightarrow> get_limit env request = 20) \<and>
   (\<forall>v. args request ''limit'' = Some v \<and> to_int env v = None \<longrightarrow>
      get_limit env request = 20) \<and>
   (\<forall>v n. args request ''limit'' = Some v \<and> to_int env v = Some n \<longrightarrow>
      get_limit env request = n \<and>
      (\<forall>history status. fst (get_history env request d0) = (Jsonify history, status) \<longrightarrow>
         int (length history) \<le> n \<and>
         length history = min (nat n) (length (analyses d0)))) \<and>
   (0 \<le> get_limit env request \<and> get_limit env request < 2 ^ 63 \<and>
    (\<forall>item \<in> set (analyses d0). item_resume d0 item \<noteq> None) \<longrightarrow>
      (\<exists>history. fst (get_history env request d0) = (Jsonify history, 200))) \<and>
   (\<forall>history status. fst (get_history env request d0) = (Jsonify history, status) \<longrightarrow>
      int (length history) \<le> get_limit env request \<and>
      sorted_wrt (\<lambda>e1 e2. desc_before (h_created_at e1) (h_created_at e2)) history \<and>
      (\<exists>rows. map (history_item d0) rows = map Inr history \<and>
         length rows = min (nat (get_limit env request)) (length (analyses d0)) \<and>
         mset rows \<subseteq># mset (analyses d0) \<and>
         sorted_wrt newer_first rows \<and>
         (\<forall>y \<in> set rows. \<forall>x \<in># mset (analyses d0) - mset rows. newer_first y x)))"
proof -
  note list = get_history_list [of env request d0]
  have missing: "args request ''limit'' = None \<longrightarrow> get_limit env request = 20"
    by (simp add: get_limit_def)
  have unparsed: "\<forall>v. args request ''limit'' = Some v \<and> to_int env v = None \<longrightarrow>
      get_limit env request = 20"
    by (simp add: get_limit_def)
  have given: "get_limit env request = n \<and>
      (\<forall>history status. fst (get_history env request d0) = (Jsonify history, status) \<longrightarrow>
         int (length history) \<le> n \<and>
         length history = min (nat n) (length (analyses d0)))"
    if "args request ''limit'' = Some v \<and> to_int env v = Some n" for v n
  proof -
    from that have n: "get_limit env request = n" by (simp add: get_limit_def)
    have "int (length history) \<le> n \<and> length history = min (nat n) (length (analyses d0))"
      if h: "fst (get_history env request d0) = (Jsonify history, status)" for history status
    proof -
      from list h obtain rows where
        "map (history_item d0) rows = map Inr history"
        "length rows = min (nat (get_limit env request)) (length (analyses d0))"
        "int (length history) \<le> get_limit env request"
        by blast
      then show ?thesis
        using n map_eq_imp_length_eq [of "history_item d0" rows Inr history] by simp
    qed
    with n show ?thesis by blast
  qed
  from missing unparsed given list show ?thesis by blast
qed

theorem history_most_recent_witness:
  "length (analyses db_two) = 2 \<and>
   map created_at (analyses db_two) = [Some 1, Some 4] \<and>
   to_int env0 (ustr ''0'') = Some 0 \<and> get_limit env0 req_limit_0 = 0 \<and>
   fst (get_history env0 req_limit_0 db_two) = (Jsonify [], 200) \<and>
   to_int env0 (ustr ''1'') = Some 1 \<and> get_limit env0 req_limit_1 = 1 \<and>
   snd (fst (get_history env0 req_limit_1 db_two)) = 200 \<and>
   map h_id (body_list (fst (fst (get_history env0 req_limit_1 db_two)))) = [Some 2] \<and>
   map h_created_at (body_list (fst (fst (get_history env0 req_limit_1 db_two)))) = [Some 4] \<and>
   to_int env0 (ustr ''2'') = Some 2 \<and> get_limit env0 req_limit_2 = 2 \<and>
   snd (fst (get_history env0 req_limit_2 db_two)) = 200 \<and>
   map h_id (body_list (fst (fst (get_history env0 req_limit_2 db_two)))) = [Some 2, Some 1] \<and>
   to_int env0 (ustr ''abc'') = None \<and> get_limit env0 req_limit_abc = 20 \<and>
   args req_nothing ''limit'' = None \<and> get_limit env0 req_nothing = 20 \<and>
   map h_id (body_list (fst (fst (get_history env0 req_nothing db_two)))) = [Some 2, Some 1]"
  using history_most_recent [of req_limit_0 env0 db_two]
    history_most_recent [of req_limit_1 env0 db_two]
    history_most_recent [of req_limit_2 env0 db_two]
    history_most_recent [of req_limit_abc env0 db_two]
    history_most_recent [of req_nothing env0 db_two]
  by (simp add: history_defs history_example_defs)

text \<open>
  C7. Every entry of a history answer belongs to a stored row whose resume is there.
  Its \<^verbatim>\<open>resume_preview\<close> is the first 200 characters of the resume text followed by
  \<^verbatim>\<open>...\<close>, 203 characters in all, when the text is longer than 200 characters, and the
  text itself otherwise. Its \<^verbatim>\<open>jd_preview\<close> is built in the same way from the
  description of the job of the row, and is null when the row has no job.
\<close>

theorem history_previews:
  assumes "get_history env request d0 = ((Jsonify history, status), d')"
    and "e \<in> set history"
  shows "\<exists>item r.
           item \<in> set (analyses d0) \<and> history_item d0 item = Inr e \<and>
           item_resume d0 item = Some r \<and>
           resume_preview e =
             (if 200 < length (resume_text r) then take 200 (resume_text r) @ ustr ''...''
              else resume_text r) \<and>
           (200 < length (resume_text r) \<longrightarrow> length (resume_preview e) = 203) \<and>
           length (resume_preview e) \<le> 203 \<and>
           jd_preview e =
             (case item_job d0 item of
                None \<Rightarrow> None
              | Some j \<Rightarrow>
                  Some (if 200 < length (job_description j)
                        then take 200 (job_description j) @ ustr ''...''
                        else job_description j)) \<and>
           (\<forall>p. jd_preview e = Some p \<longrightarrow> length p \<le> 203)"
proof -
  from assms(1) obtain rows where q: "query_history d0 (get_limit env request) = Inr rows"
    and l: "history_loop d0 rows = Inr history"
    by (rule get_history_Jsonify)
  from history_loop_member [OF l assms(2)] obtain item where
    item: "item \<in> set rows" and e: "history_item d0 item = Inr e"
    by blast
  from item query_history_subset [OF q] have mem: "item \<in> set (analyses d0)" by blast
  from e obtain r where r: "item_resume d0 item = Some r"
    by (cases "item_resume d0 item") (simp_all add: history_item_None)
  from e have fields: "resume_preview e =
      (if 200 < length (resume_text r) then take 200 (resume_text r) @ ustr ''...''
       else resume_text r)" "jd_preview e = build_jd_preview d0 item"
    by (auto simp: history_item_Some [OF r])
  from fields(1) have len: "(200 < length (resume_text r) \<longrightarrow> length (resume_preview e) = 203) \<and>
      length (resume_preview e) \<le> 203"
    by (simp add: length_ustr)
  have jd: "build_jd_preview d0 item =
      (case item_job d0 item of
         None \<Rightarrow> None
       | Some j \<Rightarrow>
           Some (if 200 < length (job_description j)
                 then take 200 (job_description j) @ ustr ''...''
                 else job_description j))"
    by (simp add: build_jd_preview_def split: option.splits)
  from build_jd_preview_length [of d0 item] fields(2)
  have jl: "\<forall>p. jd_preview e = Some p \<longrightarrow> length p \<le> 203" by simp
  from mem e r fields len jd jl show ?thesis by (intro exI [of _ item] exI [of _ r]) simp
qed

theorem history_previews_witness:
  "snd (fst (get_history env0 req_nothing db_two)) = 200 \<and>
   map resume_preview (body_list (fst (fst (get_history env0 req_nothing db_two)))) =
     [ustr ''Built APIs'', replicate 200 97 @ ustr ''...''] \<and>
   map jd_preview (body_list (fst (fst (get_history env0 req_nothing db_two)))) =
     [Some (ustr ''Backend developer''), None] \<and>
   map (length \<circ> resume_text) (resumes db_two) = [201, 10]"
proof -
  let ?e = "\<lparr>h_id = Some 1, h_resume_id = Some 1, h_job_id = None, h_match_score = None,
      h_ats_score = 70, h_quality_score = 60, h_created_at = Some 1,
      resume_preview = replicate 200 97 @ ustr ''...'', jd_preview = None\<rparr>"
  have h: "get_history env0 req_nothing db_two =
      ((Jsonify (body_list (fst (fst (get_history env0 req_nothing db_two)))), 200), db_two)"
    by (simp add: history_defs history_example_defs)
  have m: "?e \<in> set (body_list (fst (fst (get_history env0 req_nothing db_two))))"
    by (simp add: history_defs history_example_defs)
  from history_previews [OF h m] show ?thesis
    by (simp add: history_defs history_example_defs)
qed

text \<open>
  C10. When one of the rows that the history query returns has no resume, building its
  \<^verbatim>\<open>resume_preview\<close> reads \<^verbatim>\<open>.resume_text\<close> from \<^verbatim>\<open>None\<close> in the else branch and
  raises, and the whole request is answered with status 500 and the message of that
  exception. The else branch of \<^verbatim>\<open>jd_preview\<close> checks for the missing job and gives
  null.
\<close>

theorem history_absent_resume_500:
  assumes "query_history d0 (get_limit env request) = Inr rows"
    and "item \<in> set rows"
    and "item_resume d0 item = None"
  shows "fst (get_history env request d0) =
           (JsonError (str_of (AttributeError ''resume_text'')), 500) \<and>
         build_resume_preview d0 item = Inl (AttributeError ''resume_text'') \<and>
         (item_job d0 item = None \<longrightarrow> build_jd_preview d0 item = None)"
proof -
  have q: "query_history (get_db d0) = query_history d0"
    by (simp add: query_history_def get_db_def fun_eq_iff)
  from assms(3) have "item_resume (get_db d0) item = None" by (simp add: item_get_db)
  with assms(2) have "history_loop (get_db d0) rows = Inl (AttributeError ''resume_text'')"
    by (rule history_loop_Inl)
  with assms(1) have "fst (get_history env request d0) =
      (JsonError (str_of (AttributeError ''resume_text'')), 500)"
    by (simp add: get_history_def q and_then_def)
  moreover from assms(3) have "build_resume_preview d0 item = Inl (AttributeError ''resume_text'')"
    by (simp add: build_resume_preview_def get_resume_text_def)
  moreover have "item_job d0 item = None \<longrightarrow> build_jd_preview d0 item = None"
    by (simp add: build_jd_preview_def)
  ultimately show ?thesis by simp
qed

theorem history_absent_resume_500_witness:
  "query_history db_orphan (get_limit env0 req_nothing) = Inr [analysis_row 1 7 None 1] \<and>
   item_resume db_orphan (analysis_row 1 7 None 1) = None \<and>
   item_job db_orphan (analysis_row 1 7 None 1) = None \<and>
   fst (get_history env0 req_nothing db_orphan) =
     (JsonError (str_of (AttributeError ''resume_text'')), 500) \<and>
   build_jd_preview db_orphan (analysis_row 1 7 None 1) = None"
proof -
  have a: "query_history db_orphan (get_limit env0 req_nothing) = Inr [analysis_row 1 7 None 1]"
    by (simp add: query_history_def get_limit_def req_nothing_def db_orphan_def)
  have b: "analysis_row 1 7 None 1 \<in> set [analysis_row 1 7 None 1]"
    by simp
  have c: "item_resume db_orphan (analysis_row 1 7 None 1) = None"
    by (simp add: item_resume_def db_orphan_def analysis_row_def)
  have d: "item_job db_orphan (analysis_row 1 7 None 1) = None"
    by (simp add: item_job_def db_orphan_def analysis_row_def)
  from history_absent_resume_500 [OF a b c] a c d show ?thesis
    by simp
qed

subsection \<open>Claims about the lookups\<close>

text \<open>
  C8. For an identifier that is the key of no stored Resume row, \<^verbatim>\<open>GET /resume/<id>\<close>
  answers 404 with the message "Resume not found"; for one that is the key of no stored
  AnalysisResult row, \<^verbatim>\<open>GET /analysis/<id>\<close> answers 404 with "Analysis result not
  found". Neither is a 500, and both lookups leave the three tables and the log of the
  store as they were.
\<close>

theorem lookup_not_found:
  "(Some ident \<notin> r_id ` set (resumes d0) \<longrightarrow>
      fst (get_resume ident d0) = (JsonError (ustr ''Resume not found''), 404)) \<and>
   (Some ident \<notin> a_id ` set (analyses d0) \<longrightarrow>
      fst (get_analysis ident d0) = (JsonError (ustr ''Analysis result not found''), 404)) \<and>
   resumes (snd (get_resume ident d0)) = resumes d0 \<and>
   jobs (snd (get_resume ident d0)) = jobs d0 \<and>
   analyses (snd (get_resume ident d0)) = analyses d0 \<and>
   oplog (snd (get_resume ident d0)) = oplog d0 \<and>
   resumes (snd (get_analysis ident d0)) = resumes d0 \<and>
   jobs (snd (get_analysis ident d0)) = jobs d0 \<and>
   analyses (snd (get_analysis ident d0)) = analyses d0 \<and>
   oplog (snd (get_analysis ident d0)) = oplog d0"
proof -
  have r: "find (\<lambda>r. r_id r = Some ident) (resumes (get_db d0)) = None"
    if "Some ident \<notin> r_id ` set (resumes d0)"
    using that by (force simp: find_None_iff tables_get_db)
  have a: "find (\<lambda>a. a_id a = Some ident) (analyses (get_db d0)) = None"
    if "Some ident \<notin> a_id ` set (analyses d0)"
    using that by (force simp: find_None_iff tables_get_db)
  have sr: "snd (get_resume ident d0) = get_db d0"
    by (simp add: get_resume_def Let_def split: option.splits)
  have sa: "snd (get_analysis ident d0) = get_db d0"
    by (simp add: get_analysis_def Let_def split: option.splits)
  have fr: "fst (get_resume ident d0) = (JsonError (ustr ''Resume not found''), 404)"
    if "Some ident \<notin> r_id ` set (resumes d0)"
    using r [OF that] by (simp add: get_resume_def Let_def)
  have fa: "fst (get_analysis ident d0) = (JsonError (ustr ''Analysis result not found''), 404)"
    if "Some ident \<notin> a_id ` set (analyses d0)"
    using a [OF that] by (simp add: get_analysis_def Let_def)
  from fr fa show ?thesis
    by (simp add: sr sa tables_get_db)
qed

theorem lookup_not_found_witness:
  "Some 5 \<notin> r_id ` set (resumes db_two) \<and>
   Some 5 \<notin> a_id ` set (analyses db_two) \<and>
   get_resume 5 db_two = ((JsonError (ustr ''Resume not found''), 404), db_two) \<and>
   get_analysis 5 db_two = ((JsonError (ustr ''Analysis result not found''), 404), db_two)"
proof -
  have a: "Some 5 \<notin> r_id ` set (resumes db_two)" "Some 5 \<notin> a_id ` set (analyses db_two)"
    by (simp_all add: db_two_def analysis_row_def)
  have b: "snd (get_resume 5 db_two) = db_two" "snd (get_analysis 5 db_two) = db_two"
    by (simp_all add: get_resume_def get_analysis_def get_db_def db_two_def Let_def
        split: option.splits)
  from lookup_not_found [of 5 db_two] a b show ?thesis
    by (simp add: prod_eq_iff)
qed

end
